theory Spec2Isabelle
  imports Complex_Main "HOL-Library.AList" "HOL-Library.Multiset"
begin

section \<open>JavaScript numbers\<close>

text \<open>
  The reconstructor computes with the JavaScript type \<^verbatim>\<open>number\<close>. A value is a finite
  number, \<^verbatim>\<open>NaN\<close>, \<^verbatim>\<open>Infinity\<close> or \<^verbatim>\<open>-Infinity\<close>. A finite value is kept as
  the rational it stands for: the rounding and the overflow of binary64 arithmetic are not
  part of this model, and \<^verbatim>\<open>-0\<close> is identified with \<^verbatim>\<open>0\<close> (the two are equal under
  \<^verbatim>\<open>===\<close>, are the same \<^verbatim>\<open>Map\<close> key, are both falsy and both print as "0").
\<close>

datatype number = Fin rat | NaN | Infinity | NegInfinity

text \<open>Unary minus, \<^verbatim>\<open>a + b\<close>, \<^verbatim>\<open>a - b\<close>, \<^verbatim>\<open>a * b\<close> and \<^verbatim>\<open>a / b\<close> of ECMAScript.\<close>

fun js_neg :: "number \<Rightarrow> number" where
  "js_neg (Fin a) = Fin (- a)"
| "js_neg NaN = NaN"
| "js_neg Infinity = NegInfinity"
| "js_neg NegInfinity = Infinity"

fun js_add :: "number \<Rightarrow> number \<Rightarrow> number" where
  "js_add (Fin a) (Fin b) = Fin (a + b)"
| "js_add (Fin a) NaN = NaN"
| "js_add (Fin a) Infinity = Infinity"
| "js_add (Fin a) NegInfinity = NegInfinity"
| "js_add NaN b = NaN"
| "js_add Infinity (Fin b) = Infinity"
| "js_add Infinity NaN = NaN"
| "js_add Infinity Infinity = Infinity"
| "js_add Infinity NegInfinity = NaN"
| "js_add NegInfinity (Fin b) = NegInfinity"
| "js_add NegInfinity NaN = NaN"
| "js_add NegInfinity Infinity = NaN"
| "js_add NegInfinity NegInfinity = NegInfinity"

definition js_sub :: "number \<Rightarrow> number \<Rightarrow> number" where
  "js_sub a b = js_add a (js_neg b)"

fun js_mul :: "number \<Rightarrow> number \<Rightarrow> number" where
  "js_mul (Fin a) (Fin b) = Fin (a * b)"
| "js_mul (Fin a) NaN = NaN"
| "js_mul (Fin a) Infinity = (if a = 0 then NaN else if 0 < a then Infinity else NegInfinity)"
| "js_mul (Fin a) NegInfinity = (if a = 0 then NaN else if 0 < a then NegInfinity else Infinity)"
| "js_mul NaN b = NaN"
| "js_mul Infinity (Fin b) = (if b = 0 then NaN else if 0 < b then Infinity else NegInfinity)"
| "js_mul Infinity NaN = NaN"
| "js_mul Infinity Infinity = Infinity"
| "js_mul Infinity NegInfinity = NegInfinity"
| "js_mul NegInfinity (Fin b) = (if b = 0 then NaN else if 0 < b then NegInfinity else Infinity)"
| "js_mul NegInfinity NaN = NaN"
| "js_mul NegInfinity Infinity = NegInfinity"
| "js_mul NegInfinity NegInfinity = Infinity"

fun js_div :: "number \<Rightarrow> number \<Rightarrow> number" where
  "js_div (Fin a) (Fin b) =
     (if b = 0 then (if a = 0 then NaN else if 0 < a then Infinity else NegInfinity)
      else Fin (a / b))"
| "js_div (Fin a) NaN = NaN"
| "js_div (Fin a) Infinity = Fin 0"
| "js_div (Fin a) NegInfinity = Fin 0"
| "js_div NaN b = NaN"
| "js_div Infinity (Fin b) = (if b < 0 then NegInfinity else Infinity)"
| "js_div Infinity b = NaN"
| "js_div NegInfinity (Fin b) = (if b < 0 then Infinity else NegInfinity)"
| "js_div NegInfinity b = NaN"

text \<open>
  Truthiness of a number (\<^verbatim>\<open>ToBoolean\<close>): \<^verbatim>\<open>0\<close> and \<^verbatim>\<open>NaN\<close> are falsy. The second
  function is the truthiness of a \<^verbatim>\<open>number | undefined\<close>, with \<^verbatim>\<open>undefined\<close> as
  \<open>None\<close>.
\<close>

definition truthy :: "number \<Rightarrow> bool" where
  "truthy x = (x \<noteq> NaN \<and> x \<noteq> Fin 0)"

definition truthy_opt :: "number option \<Rightarrow> bool" where
  "truthy_opt x = (case x of None \<Rightarrow> False | Some v \<Rightarrow> truthy v)"



text \<open>
  \<^verbatim>\<open>x.toFixed(2)\<close>, given by the number its digits denote: the integer \<open>n\<close> with
  \<open>n / 100\<close> nearest to \<open>x\<close>, the larger one on a tie (taken on the absolute value, the
  sign put back); a value of magnitude \<open>10^21\<close> or more, \<^verbatim>\<open>NaN\<close> and the infinities print
  as \<^verbatim>\<open>toString\<close> prints them.
\<close>

definition toFixed2 :: "number \<Rightarrow> number" where
  "toFixed2 x =
     (case x of
        Fin r \<Rightarrow>
          (if 10 ^ 21 \<le> \<bar>r\<bar> then Fin r
           else Fin (sgn r * of_int \<lfloor>\<bar>r\<bar> * 100 + 1 / 2\<rfloor> / 100))
      | _ \<Rightarrow> x)"

subsection \<open>parseFloat\<close>

text \<open>
  \<^verbatim>\<open>parseFloat(s)\<close>: leading white space is skipped, then the longest prefix that is a
  \<^verbatim>\<open>StrDecimalLiteral\<close> (an optional sign, then \<^verbatim>\<open>Infinity\<close> or decimal digits with an
  optional fraction and an optional exponent) gives the value; when no prefix is one, the
  result is \<^verbatim>\<open>NaN\<close>. Strings are ASCII here.
\<close>

definition is_digit :: "char \<Rightarrow> bool" where
  "is_digit c = (c \<in> set ''0123456789'')"

definition is_space :: "char \<Rightarrow> bool" where
  "is_space c = (c \<in> set [CHR '' '', CHR 0x09, CHR 0x0A, CHR 0x0B, CHR 0x0C, CHR 0x0D])"

definition digit_val :: "char \<Rightarrow> nat" where
  "digit_val c = of_char c - 48"

definition digits_val :: "string \<Rightarrow> nat" where
  "digits_val ds = foldl (\<lambda>acc c. 10 * acc + digit_val c) 0 ds"

text \<open>The exponent part of a literal, read at the start of the rest: \<open>0\<close> when there is none.\<close>

definition exponent_part :: "string \<Rightarrow> int" where
  "exponent_part s =
     (case s of
        [] \<Rightarrow> 0
      | e # t \<Rightarrow>
          (if e = CHR ''e'' \<or> e = CHR ''E'' then
             (case t of
                [] \<Rightarrow> 0
              | c # u \<Rightarrow>
                  (if c = CHR ''-'' then
                     (if takeWhile is_digit u = [] then 0
                      else - int (digits_val (takeWhile is_digit u)))
                   else if c = CHR ''+'' then int (digits_val (takeWhile is_digit u))
                   else int (digits_val (takeWhile is_digit t))))
           else 0))"

definition pow10 :: "int \<Rightarrow> rat" where
  "pow10 e = (if 0 \<le> e then 10 ^ nat e else 1 / 10 ^ nat (- e))"

definition parse_unsigned :: "string \<Rightarrow> number" where
  "parse_unsigned s =
     (if take 8 s = ''Infinity'' then Infinity
      else
        (let ip = takeWhile is_digit s;
             r1 = dropWhile is_digit s;
             fp = (case r1 of [] \<Rightarrow> [] | c # t \<Rightarrow> if c = CHR ''.'' then takeWhile is_digit t else []);
             r2 = (case r1 of [] \<Rightarrow> [] | c # t \<Rightarrow> if c = CHR ''.'' then dropWhile is_digit t else r1)
         in if ip = [] \<and> fp = [] then NaN
            else Fin ((of_nat (digits_val ip) + of_nat (digits_val fp) / 10 ^ length fp)
                      * pow10 (exponent_part r2))))"

definition parseFloat :: "string \<Rightarrow> number" where
  "parseFloat str =
     (case dropWhile is_space str of
        [] \<Rightarrow> NaN
      | c # t \<Rightarrow>
          (if c = CHR ''-'' then js_neg (parse_unsigned t)
           else if c = CHR ''+'' then parse_unsigned t
           else parse_unsigned (c # t)))"

subsection \<open>Array.prototype.sort and Array.prototype.slice\<close>

text \<open>
  \<^verbatim>\<open>xs.sort(comparefn)\<close> is a stable sort: \<open>a\<close> is placed after \<open>b\<close> only when
  \<^verbatim>\<open>comparefn(a, b) > 0\<close>, and a comparator result of \<^verbatim>\<open>NaN\<close> counts as \<open>0\<close>. For a
  comparator that is a consistent ordering every stable sort returns the same array, the
  one computed here by insertion; for any other comparator ECMAScript leaves the order to
  the implementation, and insertion is the order modelled.
\<close>

definition js_positive :: "number \<Rightarrow> bool" where
  "js_positive v = (case v of Fin r \<Rightarrow> 0 < r | Infinity \<Rightarrow> True | _ \<Rightarrow> False)"

fun sort_insert :: "('a \<Rightarrow> 'a \<Rightarrow> number) \<Rightarrow> 'a \<Rightarrow> 'a list \<Rightarrow> 'a list" where
  "sort_insert cmp x [] = [x]"
| "sort_insert cmp x (y # ys) =
     (if js_positive (cmp x y) then y # sort_insert cmp x ys else x # y # ys)"

definition js_sort :: "('a \<Rightarrow> 'a \<Rightarrow> number) \<Rightarrow> 'a list \<Rightarrow> 'a list" where
  "js_sort cmp xs = foldr (sort_insert cmp) xs []"

text \<open>
  \<^verbatim>\<open>xs.slice(0, e)\<close> for an integer \<open>e\<close>: a negative end counts from the end of the
  array, and the end is clamped to the array.
\<close>

definition slice0 :: "'a list \<Rightarrow> int \<Rightarrow> 'a list" where
  "slice0 xs e =
     (let len = int (length xs);
          final = (if e < 0 then max (len + e) 0 else min e len)
      in take (nat final) xs)"

section \<open>The data model\<close>

text \<open>
  Modelled from the spec: the types \<^verbatim>\<open>PriceLevel\<close>, \<^verbatim>\<open>OrderBook\<close> and
  \<^verbatim>\<open>OrderbookDelta\<close>, which the reconstructor imports from \<^verbatim>\<open>./types\<close>, a file that is
  not among the sources. The fields are the ones the reconstructor reads, typed as it uses
  them: price and size strings that it parses in a checkpoint level, numbers in a delta.
  The order count \<^verbatim>\<open>n\<close>, the sequence number and the depth are integers, held exactly;
  the side is \<^verbatim>\<open>'bid'\<close> or \<^verbatim>\<open>'ask'\<close>. A delta's timestamp is a time value in
  milliseconds within the range of \<^verbatim>\<open>Date\<close>, on which
  \<^verbatim>\<open>new Date(t).toISOString()\<close> is defined.
\<close>

record PriceLevel =
  px :: string
  sz :: string
  n_orders :: int

record OrderBook =
  ob_coin :: string
  ob_timestamp :: string
  ob_bids :: "PriceLevel list"
  ob_asks :: "PriceLevel list"

datatype side = Bid | Ask

record OrderbookDelta =
  delta_timestamp :: int
  delta_side :: side
  delta_price :: number
  delta_size :: number
  delta_sequence :: int

record InternalLevel =
  price :: number
  size' :: number
  orders :: int

text \<open>
  The timestamp string of the state and of a snapshot: the checkpoint's string as it came,
  or the ISO-8601 string that \<^verbatim>\<open>toISOString\<close> prints for a time value, named by that
  value.
\<close>

datatype timestamp = Verbatim string | ISOString int

text \<open>
  A rendered level and a snapshot. A field printed by \<^verbatim>\<open>toString()\<close> or by
  \<^verbatim>\<open>toFixed(2)\<close> holds the number that the string denotes (\<^verbatim>\<open>toString\<close> is one-to-one
  on numbers); an optional field that is \<^verbatim>\<open>undefined\<close> is \<open>None\<close>.
\<close>

record RenderedLevel =
  r_px :: number
  r_sz :: number
  r_n :: int

record ReconstructedOrderBook =
  snap_coin :: string
  snap_timestamp :: timestamp
  snap_bids :: "RenderedLevel list"
  snap_asks :: "RenderedLevel list"
  snap_midPrice :: "number option"
  snap_spread :: "number option"
  snap_spreadBps :: "number option"
  snap_sequence :: int

record ReconstructOptions =
  opt_depth :: "int option"
  opt_emitAll :: "bool option"

subsection \<open>Map<number, InternalLevel>\<close>

text \<open>
  A JavaScript \<^verbatim>\<open>Map\<close> keeps its entries in insertion order: \<^verbatim>\<open>set\<close> on a present key
  replaces the value in place, on a new key it appends; \<^verbatim>\<open>delete\<close> on an absent key
  does nothing. Keys are compared by SameValueZero, under which \<^verbatim>\<open>NaN\<close> is a key like
  any other.
\<close>

type_synonym level_map = "(number \<times> InternalLevel) list"

definition Map_set :: "number \<Rightarrow> InternalLevel \<Rightarrow> level_map \<Rightarrow> level_map" where
  "Map_set k v m = AList.update k v m"

definition Map_delete :: "number \<Rightarrow> level_map \<Rightarrow> level_map" where
  "Map_delete k m = AList.delete k m"

definition Map_values :: "level_map \<Rightarrow> InternalLevel list" where
  "Map_values m = map snd m"


section \<open>OrderBookReconstructor\<close>

record OrderBookReconstructor =
  bids :: level_map
  asks :: level_map
  coin :: string
  lastTimestamp :: timestamp
  lastSequence :: int

text \<open>The fields of a new instance.\<close>

definition new_reconstructor :: OrderBookReconstructor where
  "new_reconstructor =
     \<lparr>bids = [], asks = [], coin = [], lastTimestamp = Verbatim [], lastSequence = 0\<rparr>"

subsection \<open>initialize\<close>

text \<open>One of the two loops of \<^verbatim>\<open>initialize\<close>: every level is parsed and set into the book.\<close>

fun parse_levels :: "level_map \<Rightarrow> PriceLevel list \<Rightarrow> level_map" where
  "parse_levels book [] = book"
| "parse_levels book (level # rest) =
     (let price' = parseFloat (px level)
      in parse_levels
           (Map_set price' \<lparr>price = price', size' = parseFloat (sz level), orders = n_orders level\<rparr> book)
           rest)"

definition initialize :: "OrderBookReconstructor \<Rightarrow> OrderBook \<Rightarrow> OrderBookReconstructor" where
  "initialize this checkpoint =
     (let this1 = this\<lparr>bids := [], asks := [], coin := ob_coin checkpoint,
                       lastTimestamp := Verbatim (ob_timestamp checkpoint), lastSequence := 0\<rparr>;
          this2 = this1\<lparr>bids := parse_levels (bids this1) (ob_bids checkpoint)\<rparr>
      in this2\<lparr>asks := parse_levels (asks this2) (ob_asks checkpoint)\<rparr>)"

subsection \<open>applyDelta\<close>

definition apply_to_book :: "OrderbookDelta \<Rightarrow> level_map \<Rightarrow> level_map" where
  "apply_to_book delta book =
     (if delta_size delta = Fin 0 then Map_delete (delta_price delta) book
      else Map_set (delta_price delta)
             \<lparr>price = delta_price delta, size' = delta_size delta, orders = 1\<rparr> book)"

definition applyDelta :: "OrderBookReconstructor \<Rightarrow> OrderbookDelta \<Rightarrow> OrderBookReconstructor" where
  "applyDelta this delta =
     (let this1 = (if delta_side delta = Bid then this\<lparr>bids := apply_to_book delta (bids this)\<rparr>
                   else this\<lparr>asks := apply_to_book delta (asks this)\<rparr>)
      in this1\<lparr>lastTimestamp := ISOString (delta_timestamp delta),
               lastSequence := delta_sequence delta\<rparr>)"

subsection \<open>getSnapshot\<close>

definition toLevel :: "InternalLevel \<Rightarrow> RenderedLevel" where
  "toLevel level = \<lparr>r_px = price level, r_sz = size' level, r_n = orders level\<rparr>"

text \<open>\<^verbatim>\<open>xs[0]?.price\<close>\<close>

definition first_price :: "InternalLevel list \<Rightarrow> number option" where
  "first_price xs = (case xs of [] \<Rightarrow> None | l # _ \<Rightarrow> Some (price l))"

text \<open>\<^verbatim>\<open>depth ? xs.slice(0, depth) : xs\<close>, with an absent depth as \<open>None\<close>.\<close>

definition depth_limit :: "int option \<Rightarrow> 'a list \<Rightarrow> 'a list" where
  "depth_limit depth xs =
     (case depth of None \<Rightarrow> xs | Some d \<Rightarrow> if d \<noteq> 0 then slice0 xs d else xs)"

definition sortedBids_of :: "OrderBookReconstructor \<Rightarrow> InternalLevel list" where
  "sortedBids_of this = js_sort (\<lambda>a b. js_sub (price b) (price a)) (Map_values (bids this))"

definition sortedAsks_of :: "OrderBookReconstructor \<Rightarrow> InternalLevel list" where
  "sortedAsks_of this = js_sort (\<lambda>a b. js_sub (price a) (price b)) (Map_values (asks this))"

definition getSnapshot :: "OrderBookReconstructor \<Rightarrow> int option \<Rightarrow> ReconstructedOrderBook" where
  "getSnapshot this depth =
     (let sortedBids = sortedBids_of this;
          sortedAsks = sortedAsks_of this;
          bidsOutput = map toLevel (depth_limit depth sortedBids);
          asksOutput = map toLevel (depth_limit depth sortedAsks);
          bestBid = first_price sortedBids;
          bestAsk = first_price sortedAsks;
          midPrice = (if truthy_opt bestBid \<and> truthy_opt bestAsk
                      then Some (js_div (js_add (the bestBid) (the bestAsk)) (Fin 2)) else None);
          spread = (if truthy_opt bestBid \<and> truthy_opt bestAsk
                    then Some (js_sub (the bestAsk) (the bestBid)) else None);
          spreadBps = (if truthy_opt midPrice \<and> truthy_opt spread
                       then Some (js_mul (js_div (the spread) (the midPrice)) (Fin 10000)) else None)
      in \<lparr>snap_coin = coin this,
          snap_timestamp = lastTimestamp this,
          snap_bids = bidsOutput,
          snap_asks = asksOutput,
          snap_midPrice = midPrice,
          snap_spread = spread,
          snap_spreadBps = map_option toFixed2 spreadBps,
          snap_sequence = lastSequence this\<rparr>)"

subsection \<open>reconstructAll, iterate, reconstructFinal\<close>

text \<open>
  Every method takes the instance it is called on and returns its result with the
  instance as the call leaves it. \<^verbatim>\<open>[...deltas].sort((a, b) => a.sequence - b.sequence)\<close>
  is the sort of a copy: the caller's array is not touched.
\<close>

definition sortDeltas :: "OrderbookDelta list \<Rightarrow> OrderbookDelta list" where
  "sortDeltas deltas =
     js_sort (\<lambda>a b. js_sub (Fin (of_int (delta_sequence a))) (Fin (of_int (delta_sequence b))))
       deltas"

text \<open>The loop of \<^verbatim>\<open>reconstructAll\<close> over the sorted deltas.\<close>

fun replay_loop ::
  "int option \<Rightarrow> bool \<Rightarrow> OrderbookDelta list \<Rightarrow> OrderBookReconstructor \<Rightarrow>
   ReconstructedOrderBook list \<Rightarrow> ReconstructedOrderBook list \<times> OrderBookReconstructor" where
  "replay_loop depth emitAll [] this snapshots = (snapshots, this)"
| "replay_loop depth emitAll (delta # rest) this snapshots =
     (let this1 = applyDelta this delta;
          snapshots1 = (if emitAll then snapshots @ [getSnapshot this1 depth] else snapshots)
      in replay_loop depth emitAll rest this1 snapshots1)"

definition reconstructAll ::
  "OrderBookReconstructor \<Rightarrow> OrderBook \<Rightarrow> OrderbookDelta list \<Rightarrow> ReconstructOptions \<Rightarrow>
   ReconstructedOrderBook list \<times> OrderBookReconstructor" where
  "reconstructAll this checkpoint deltas options =
     (let depth = opt_depth options;
          emitAll = (case opt_emitAll options of None \<Rightarrow> True | Some b \<Rightarrow> b);
          this1 = initialize this checkpoint;
          sortedDeltas = sortDeltas deltas;
          snapshots1 = (if emitAll then [getSnapshot this1 depth] else []);
          (snapshots2, this2) = replay_loop depth emitAll sortedDeltas this1 snapshots1;
          snapshots3 = (if \<not> emitAll then snapshots2 @ [getSnapshot this2 depth] else snapshots2)
      in (snapshots3, this2))"

text \<open>
  The generator \<^verbatim>\<open>iterate\<close>, as the list of the snapshots it yields when it is run to
  its end with no other call on the instance in between.
\<close>

fun iterate_loop ::
  "int option \<Rightarrow> OrderbookDelta list \<Rightarrow> OrderBookReconstructor \<Rightarrow>
   ReconstructedOrderBook list \<Rightarrow> ReconstructedOrderBook list \<times> OrderBookReconstructor" where
  "iterate_loop depth [] this yielded = (yielded, this)"
| "iterate_loop depth (delta # rest) this yielded =
     (let this1 = applyDelta this delta
      in iterate_loop depth rest this1 (yielded @ [getSnapshot this1 depth]))"

definition iterate ::
  "OrderBookReconstructor \<Rightarrow> OrderBook \<Rightarrow> OrderbookDelta list \<Rightarrow> ReconstructOptions \<Rightarrow>
   ReconstructedOrderBook list \<times> OrderBookReconstructor" where
  "iterate this checkpoint deltas options =
     (let depth = opt_depth options;
          this1 = initialize this checkpoint;
          yielded = [getSnapshot this1 depth];
          sortedDeltas = sortDeltas deltas
      in iterate_loop depth sortedDeltas this1 yielded)"

text \<open>The loop of \<^verbatim>\<open>reconstructFinal\<close>.\<close>

fun apply_loop :: "OrderBookReconstructor \<Rightarrow> OrderbookDelta list \<Rightarrow> OrderBookReconstructor" where
  "apply_loop this [] = this"
| "apply_loop this (delta # rest) = apply_loop (applyDelta this delta) rest"

definition reconstructFinal ::
  "OrderBookReconstructor \<Rightarrow> OrderBook \<Rightarrow> OrderbookDelta list \<Rightarrow> int option \<Rightarrow>
   ReconstructedOrderBook \<times> OrderBookReconstructor" where
  "reconstructFinal this checkpoint deltas depth =
     (let this1 = initialize this checkpoint;
          sortedDeltas = sortDeltas deltas;
          this2 = apply_loop this1 sortedDeltas
      in (getSnapshot this2 depth, this2))"

subsection \<open>detectGaps\<close>

function gaps_loop ::
  "OrderbookDelta list \<Rightarrow> nat \<Rightarrow> (int \<times> int) list \<Rightarrow> (int \<times> int) list" where
  "gaps_loop sortedDeltas i gaps =
     (if i < length sortedDeltas then
        (let expected = delta_sequence (sortedDeltas ! (i - 1)) + 1;
             actual = delta_sequence (sortedDeltas ! i)
         in gaps_loop sortedDeltas (i + 1)
              (if actual \<noteq> expected then gaps @ [(expected, actual)] else gaps))
      else gaps)"
  by pat_completeness auto
termination
  by (relation "measure (\<lambda>(sortedDeltas, i, gaps). length sortedDeltas - i)") auto

declare gaps_loop.simps [simp del]

definition detectGaps :: "OrderbookDelta list \<Rightarrow> (int \<times> int) list" where
  "detectGaps deltas =
     (if length deltas < 2 then []
      else gaps_loop (sortDeltas deltas) 1 [])"

section \<open>Notions used in the statements\<close>



















section \<open>Example inputs\<close>

text \<open>
  The checkpoint and the deltas of the end-to-end example: one bid at 100, one ask at 101,
  and deltas that remove the bid, add an ask and add a bid.
\<close>

definition ex_checkpoint :: OrderBook where
  "ex_checkpoint =
     \<lparr>ob_coin = ''BTC'', ob_timestamp = ''2024-01-01T00:00:00.000Z'',
      ob_bids = [\<lparr>px = ''100'', sz = ''2'', n_orders = 1\<rparr>],
      ob_asks = [\<lparr>px = ''101'', sz = ''3'', n_orders = 1\<rparr>]\<rparr>"

definition ex_delta1 :: OrderbookDelta where
  "ex_delta1 =
     \<lparr>delta_timestamp = 1704067201000, delta_side = Bid, delta_price = Fin 100,
      delta_size = Fin 0, delta_sequence = 1\<rparr>"

definition ex_delta2 :: OrderbookDelta where
  "ex_delta2 =
     \<lparr>delta_timestamp = 1704067202000, delta_side = Ask, delta_price = Fin 102,
      delta_size = Fin 5, delta_sequence = 2\<rparr>"

definition ex_delta3 :: OrderbookDelta where
  "ex_delta3 =
     \<lparr>delta_timestamp = 1704067203000, delta_side = Bid, delta_price = Fin 99,
      delta_size = Fin 4, delta_sequence = 3\<rparr>"


text \<open>A checkpoint with a bid of size 0.\<close>

definition ex_zero_checkpoint :: OrderBook where
  "ex_zero_checkpoint =
     \<lparr>ob_coin = ''BTC'', ob_timestamp = ''2024-01-01T00:00:00.000Z'',
      ob_bids = [\<lparr>px = ''100'', sz = ''0'', n_orders = 1\<rparr>],
      ob_asks = [\<lparr>px = ''101'', sz = ''3'', n_orders = 1\<rparr>]\<rparr>"

text \<open>A locked book (best bid equal to best ask) and a crossed book (best bid above best ask).\<close>

definition ex_locked_checkpoint :: OrderBook where
  "ex_locked_checkpoint =
     \<lparr>ob_coin = ''BTC'', ob_timestamp = ''2024-01-01T00:00:00.000Z'',
      ob_bids = [\<lparr>px = ''100'', sz = ''2'', n_orders = 1\<rparr>],
      ob_asks = [\<lparr>px = ''100'', sz = ''3'', n_orders = 1\<rparr>]\<rparr>"

definition ex_crossed_checkpoint :: OrderBook where
  "ex_crossed_checkpoint =
     \<lparr>ob_coin = ''BTC'', ob_timestamp = ''2024-01-01T00:00:00.000Z'',
      ob_bids = [\<lparr>px = ''101'', sz = ''2'', n_orders = 1\<rparr>],
      ob_asks = [\<lparr>px = ''100'', sz = ''3'', n_orders = 1\<rparr>]\<rparr>"


text \<open>Deltas with the sequence number set, for the examples of gap detection.\<close>

definition seq_delta :: "int \<Rightarrow> OrderbookDelta" where
  "seq_delta s = ex_delta2\<lparr>delta_sequence := s\<rparr>"

section \<open>Sorting and the reconstruction loops\<close>












lemma initialize_any: "initialize this cp = initialize this' cp"
  by (cases this, cases this') (simp add: initialize_def)









section \<open>The reconstruction modes\<close>




text \<open>
  C10. \<^verbatim>\<open>reconstructAll\<close>, \<^verbatim>\<open>iterate\<close> and \<^verbatim>\<open>reconstructFinal\<close> start by
  initializing the instance from the checkpoint, so what they return (and the state they
  leave) is the same for any two states of the instance they are called on, whatever calls
  produced those states.
\<close>

theorem reconstruction_independent_of_instance:
  "reconstructAll this cp ds opts = reconstructAll this' cp ds opts
   \<and> iterate this cp ds opts = iterate this' cp ds opts
   \<and> reconstructFinal this cp ds depth = reconstructFinal this' cp ds depth"
  by (simp add: reconstructAll_def iterate_def reconstructFinal_def
        initialize_any [of this cp this'])

theorem reconstruction_independent_of_instance_witness:
  "reconstructFinal (initialize new_reconstructor ex_zero_checkpoint) ex_checkpoint
       [ex_delta2, ex_delta1] (Some 5) =
     reconstructFinal new_reconstructor ex_checkpoint [ex_delta2, ex_delta1] (Some 5)
   \<and> reconstructAll (applyDelta (initialize new_reconstructor ex_zero_checkpoint) ex_delta3)
       ex_checkpoint [ex_delta2, ex_delta1] \<lparr>opt_depth = None, opt_emitAll = None\<rparr> =
     reconstructAll new_reconstructor ex_checkpoint [ex_delta2, ex_delta1]
       \<lparr>opt_depth = None, opt_emitAll = None\<rparr>"
  using reconstruction_independent_of_instance
          [of "initialize new_reconstructor ex_zero_checkpoint" ex_checkpoint
              "[ex_delta2, ex_delta1]" _ new_reconstructor "Some 5"]
        reconstruction_independent_of_instance
          [of "applyDelta (initialize new_reconstructor ex_zero_checkpoint) ex_delta3" ex_checkpoint
              "[ex_delta2, ex_delta1]" "\<lparr>opt_depth = None, opt_emitAll = None\<rparr>" new_reconstructor]
  by blast




section \<open>applyDelta\<close>











section \<open>detectGaps\<close>





lemma detectGaps_single: "detectGaps [seq_delta 7] = []"
  by code_simp



section \<open>initialize\<close>






section \<open>Derived metrics\<close>

text \<open>
  The metrics are absent when a side is empty, and computed from the two best prices when
  both are truthy.
\<close>

lemma js_sort_Nil: "js_sort cmp [] = []"
  by (simp add: js_sort_def)

lemma metrics_absent:
  assumes "bids this = [] \<or> asks this = []"
  shows "snap_midPrice (getSnapshot this depth) = None
       \<and> snap_spread (getSnapshot this depth) = None
       \<and> snap_spreadBps (getSnapshot this depth) = None"
proof -
  have "first_price (sortedBids_of this) = None \<or> first_price (sortedAsks_of this) = None"
    using assms
    by (auto simp: sortedBids_of_def sortedAsks_of_def Map_values_def js_sort_Nil first_price_def)
  then have "\<not> (truthy_opt (first_price (sortedBids_of this))
                \<and> truthy_opt (first_price (sortedAsks_of this)))"
    by (auto simp: truthy_opt_def)
  then show ?thesis
    by (simp add: getSnapshot_def Let_def truthy_opt_def)
qed

lemma metrics_present:
  assumes "first_price (sortedBids_of this) = Some b" and "first_price (sortedAsks_of this) = Some a"
    and "truthy b" and "truthy a"
  shows "snap_midPrice (getSnapshot this depth) = Some (js_div (js_add b a) (Fin 2))"
    and "snap_spread (getSnapshot this depth) = Some (js_sub a b)"
    and "snap_spreadBps (getSnapshot this depth) =
           (if truthy (js_div (js_add b a) (Fin 2)) \<and> truthy (js_sub a b)
            then Some (toFixed2 (js_mul (js_div (js_sub a b) (js_div (js_add b a) (Fin 2))) (Fin 10000)))
            else None)"
  using assms by (simp_all add: getSnapshot_def Let_def truthy_opt_def)


text \<open>
  C2, at a locked book: best bid and best ask are both 100, so both sides are non-empty,
  \<^verbatim>\<open>midPrice\<close> is 100 and \<^verbatim>\<open>spread\<close> is 0, both present; \<^verbatim>\<open>spreadBps\<close> is absent, since
  the test \<^verbatim>\<open>midPrice && spread\<close> takes the spread 0 for an absent one.
\<close>

theorem locked_book_snapshot:
  "getSnapshot (initialize new_reconstructor ex_locked_checkpoint) None =
     \<lparr>snap_coin = ''BTC'', snap_timestamp = Verbatim ''2024-01-01T00:00:00.000Z'',
      snap_bids = [\<lparr>r_px = Fin 100, r_sz = Fin 2, r_n = 1\<rparr>],
      snap_asks = [\<lparr>r_px = Fin 100, r_sz = Fin 3, r_n = 1\<rparr>],
      snap_midPrice = Some (Fin 100), snap_spread = Some (Fin 0), snap_spreadBps = None,
      snap_sequence = 0\<rparr>"
  by code_simp

text \<open>The crossed book: the negative spread and its basis points are computed and returned.\<close>

lemma crossed_book_snapshot:
  "getSnapshot (initialize new_reconstructor ex_crossed_checkpoint) None =
     \<lparr>snap_coin = ''BTC'', snap_timestamp = Verbatim ''2024-01-01T00:00:00.000Z'',
      snap_bids = [\<lparr>r_px = Fin 101, r_sz = Fin 2, r_n = 1\<rparr>],
      snap_asks = [\<lparr>r_px = Fin 100, r_sz = Fin 3, r_n = 1\<rparr>],
      snap_midPrice = Some (Fin (201 / 2)), snap_spread = Some (Fin (- 1)),
      snap_spreadBps = Some (Fin (- 199 / 2)), snap_sequence = 0\<rparr>"
  by code_simp

section \<open>Levels of size 0\<close>













section \<open>The order of the rendered levels\<close>

subsection \<open>The order of numbers\<close>





subsection \<open>Sorting by a comparator that is an ordering\<close>





subsection \<open>The invariant of a side container\<close>














subsection \<open>The rendered levels\<close>

lemma r_px_toLevel: "map r_px (map toLevel xs) = map price xs"
  by (simp add: toLevel_def)























section \<open>The depth limit\<close>











end
